theory Spec2Isabelle
  imports Main "HOL-Library.Signed_Division" "HOL-Library.Sublist"
begin

section \<open>The advanced calculator (advanced\_calculator.cpp)\<close>

subsection \<open>Process state\<close>

text \<open>
  What a run of the program can see and change: the unread part of standard input, what
  has been written to standard output and standard error, the argument vector and the
  environment. \<open>main\<close> takes no arguments and names only \<open>std::cin\<close> and
  \<open>std::cout\<close>.
\<close>

record world =
  cin :: string
  cout :: string
  cerr :: string
  argv :: "string list"
  environ :: "(string \<times> string) list"

abbreviation newline :: char where
  "newline \<equiv> CHR 0x0A"

text \<open>
  \<open>std::getline(std::cin, s)\<close> on a freshly constructed \<open>s\<close>: the characters up to
  the next newline, which is consumed and not stored. At end of input the string stays
  empty and the stream stays at its end (the program never tests the stream).
\<close>

definition getline :: "world \<Rightarrow> string \<times> world" where
  "getline w =
     (takeWhile (\<lambda>c. c \<noteq> newline) (cin w),
      w\<lparr>cin := drop 1 (dropWhile (\<lambda>c. c \<noteq> newline) (cin w))\<rparr>)"

text \<open>\<open>std::cout << s << std::endl\<close>\<close>

definition put_endl :: "string \<Rightarrow> world \<Rightarrow> world" where
  "put_endl s w = w\<lparr>cout := cout w @ s @ [newline]\<rparr>"

subsection \<open>Characters and strings\<close>

text \<open>
  \<open>::tolower\<close> in the "C" locale (the program never calls \<open>setlocale\<close>): the 26 upper-case
  letters go to their lower-case forms, every other byte is left alone.
\<close>

definition tolower :: "char \<Rightarrow> char" where
  "tolower c =
     (if (65::nat) \<le> of_char c \<and> of_char c \<le> (90::nat)
      then char_of (of_char c + (32::nat)) else c)"

text \<open>The set \<open>" \t\n\r"\<close> handed to \<open>find_first_not_of\<close> and \<open>find_last_not_of\<close>.\<close>

definition trim_chars :: "char list" where
  "trim_chars = [CHR '' '', CHR 0x09, CHR 0x0A, CHR 0x0D]"

text \<open>
  \<open>operation.erase(0, operation.find_first_not_of(" \t\n\r"))\<close>: when every character is
  in the set, \<open>find_first_not_of\<close> is \<open>npos\<close> and the whole string goes.
\<close>

definition erase_leading :: "string \<Rightarrow> string" where
  "erase_leading s = dropWhile (\<lambda>c. c \<in> set trim_chars) s"

text \<open>
  \<open>operation.erase(operation.find_last_not_of(" \t\n\r") + 1)\<close>: when there is no such
  character, \<open>npos + 1\<close> wraps to \<open>0\<close> and the whole string goes.
\<close>

definition erase_trailing :: "string \<Rightarrow> string" where
  "erase_trailing s = rev (dropWhile (\<lambda>c. c \<in> set trim_chars) (rev s))"

text \<open>The three statements that normalise the operation name, in the order of the source.\<close>

definition normalise :: "string \<Rightarrow> string" where
  "normalise s = erase_trailing (erase_leading (map tolower s))"

subsection \<open>Integers: \<open>std::stoi\<close> and \<open>operator<<\<close>\<close>

definition INT_MAX :: int where
  "INT_MAX = 2147483647"

definition INT_MIN :: int where
  "INT_MIN = - 2147483648"

text \<open>\<open>isspace\<close> in the "C" locale: the white space that \<open>strtol\<close> skips.\<close>

definition isspace :: "char \<Rightarrow> bool" where
  "isspace c \<longleftrightarrow> c \<in> set [CHR '' '', CHR 0x09, CHR 0x0A, CHR 0x0B, CHR 0x0C, CHR 0x0D]"

definition isdigit :: "char \<Rightarrow> bool" where
  "isdigit c \<longleftrightarrow> (48::nat) \<le> of_char c \<and> of_char c \<le> (57::nat)"

definition digit_value :: "char \<Rightarrow> int" where
  "digit_value c = int (of_char c) - 48"

definition digits_value :: "string \<Rightarrow> int" where
  "digits_value ds = foldl (\<lambda>acc c. acc * 10 + digit_value c) 0 ds"

datatype stoi_error = Invalid_argument | Out_of_range

text \<open>
  \<open>std::stoi(str)\<close>, base 10: optional white space, an optional sign, then the longest
  run of digits; whatever follows is ignored. No digit: \<open>std::invalid_argument\<close>. A value
  that does not fit \<open>int\<close>: \<open>std::out_of_range\<close>.
\<close>

definition stoi :: "string \<Rightarrow> stoi_error + int" where
  "stoi str =
     (let t = dropWhile isspace str;
          neg = (t \<noteq> [] \<and> hd t = CHR ''-'');
          u = (if t \<noteq> [] \<and> (hd t = CHR ''-'' \<or> hd t = CHR ''+'') then tl t else t);
          ds = takeWhile isdigit u
      in if ds = [] then Inl Invalid_argument
         else let v = (if neg then - digits_value ds else digits_value ds)
              in if v < INT_MIN \<or> INT_MAX < v then Inl Out_of_range else Inr v)"

definition digit_char :: "nat \<Rightarrow> char" where
  "digit_char n = char_of (48 + n)"

fun show_nat :: "nat \<Rightarrow> string" where
  "show_nat n = (if n < 10 then [digit_char n] else show_nat (n div 10) @ [digit_char (n mod 10)])"

declare show_nat.simps [simp del]

text \<open>\<open>std::cout << i\<close> for an \<open>int\<close>: decimal digits, a leading \<open>-\<close> when negative.\<close>

definition show_int :: "int \<Rightarrow> string" where
  "show_int i = (if i < 0 then CHR ''-'' # show_nat (nat (- i)) else show_nat (nat i))"

text \<open>
  The value of an \<open>int\<close> expression whose mathematical result is \<open>v\<close>: signed overflow
  has no defined behaviour, which is the value \<open>None\<close>.
\<close>

definition int_result :: "int \<Rightarrow> int option" where
  "int_result v = (if INT_MIN \<le> v \<and> v \<le> INT_MAX then Some v else None)"

text \<open>
  \<open>a / b\<close> and \<open>a % b\<close> on \<open>int\<close>: the quotient is truncated toward zero and the remainder
  has the sign of \<open>a\<close>. A zero divisor, and a quotient that does not fit \<open>int\<close>, have no
  defined behaviour, for both operators.
\<close>

definition int_divide :: "int \<Rightarrow> int \<Rightarrow> int option" where
  "int_divide a b = (if b = 0 then None else int_result (a sdiv b))"

definition int_modulo :: "int \<Rightarrow> int \<Rightarrow> int option" where
  "int_modulo a b =
     (if b = 0 then None
      else case int_result (a sdiv b) of None \<Rightarrow> None | Some _ \<Rightarrow> Some (a smod b))"

subsection \<open>The floating-point library\<close>

text \<open>
  The program calls \<open>std::stod\<close>, \<open>std::sqrt\<close> and \<open>std::pow\<close> on \<open>double\<close>. They are taken
  as parameters, over any type \<open>'d\<close> of doubles:
  \<^item> \<open>stod s\<close> is \<open>None\<close> when \<open>std::stod\<close> throws, and the parsed value otherwise;
  \<^item> \<open>lt_zero x\<close> is the comparison \<open>x < 0\<close>;
  \<^item> \<open>sqrt_int x\<close> is \<open>static_cast<int>(std::sqrt(x))\<close>, \<open>None\<close> when the truncated value
    does not fit \<open>int\<close> (no defined behaviour);
  \<^item> \<open>pow_int a b\<close> is \<open>static_cast<int>(std::pow(a, b))\<close>, likewise.
\<close>

record 'd libm =
  stod :: "string \<Rightarrow> 'd option"
  lt_zero :: "'d \<Rightarrow> bool"
  sqrt_int :: "'d \<Rightarrow> int option"
  pow_int :: "int \<Rightarrow> int \<Rightarrow> int option"

subsection \<open>\<open>main\<close>\<close>

text \<open>
  A run either returns from \<open>main\<close> with an exit code, leaving the process state it has
  built, or reaches an operation without defined behaviour.
\<close>

datatype run = Returned world int | Undefined_behaviour

definition print_int :: "int option \<Rightarrow> world \<Rightarrow> run" where
  "print_int r w = (case r of None \<Rightarrow> Undefined_behaviour | Some v \<Rightarrow> Returned (put_endl (show_int v) w) 0)"

definition main :: "'d libm \<Rightarrow> world \<Rightarrow> run" where
  "main L w0 =
     (let (line, w1) = getline w0;
          operation = normalise line
      in if operation = ''sqrt'' then
           (let (numStr, w2) = getline w1
            in case stod L numStr of
                 None \<Rightarrow> Returned (put_endl ''Error: Invalid input'' w2) 0
               | Some num \<Rightarrow>
                   if lt_zero L num then Returned (put_endl ''Error: Invalid input'' w2) 0
                   else print_int (sqrt_int L num) w2)
         else
           (let (input1, w2) = getline w1;
                (input2, w3) = getline w2
            in case stoi input1 of
                 Inl _ \<Rightarrow> Returned (put_endl ''Error: Invalid input'' w3) 0
               | Inr a \<Rightarrow>
                  (case stoi input2 of
                     Inl _ \<Rightarrow> Returned (put_endl ''Error: Invalid input'' w3) 0
                   | Inr b \<Rightarrow>
                       if operation = ''add'' then print_int (int_result (a + b)) w3
                       else if operation = ''subtract'' then print_int (int_result (a - b)) w3
                       else if operation = ''multiply'' then print_int (int_result (a * b)) w3
                       else if operation = ''divide'' then
                         (if b = 0 then Returned (put_endl ''Error: Division by zero'' w3) 0
                          else print_int (int_divide a b) w3)
                       else if operation = ''power'' then print_int (pow_int L a b) w3
                       else if operation = ''modulo'' then print_int (int_modulo a b) w3
                       else Returned (put_endl ''Error: Unknown operation'' w3) 0)))"

text \<open>What the sandbox observes of a run: the captured standard output and the exit code.\<close>

datatype observation = Exited string int | Undefined

definition observe :: "run \<Rightarrow> observation" where
  "observe r = (case r of Returned w code \<Rightarrow> Exited (cout w) code | Undefined_behaviour \<Rightarrow> Undefined)"

text \<open>The program started on the standard input \<open>input\<close>, with nothing written yet.\<close>

definition calculator :: "'d libm \<Rightarrow> string \<Rightarrow> observation" where
  "calculator L input =
     observe (main L \<lparr>cin = input, cout = [], cerr = [], argv = [''calculator''], environ = []\<rparr>)"

subsection \<open>The input as lines\<close>

text \<open>
  For stating properties: the input left after \<open>n\<close> calls of \<open>getline\<close>, and the line that
  the next call then delivers (empty once the input is exhausted).
\<close>

fun skip_lines :: "nat \<Rightarrow> string \<Rightarrow> string" where
  "skip_lines 0 s = s"
| "skip_lines (Suc n) s = skip_lines n (drop 1 (dropWhile (\<lambda>c. c \<noteq> newline) s))"

definition stdin_line :: "nat \<Rightarrow> string \<Rightarrow> string" where
  "stdin_line n s = takeWhile (\<lambda>c. c \<noteq> newline) (skip_lines n s)"

text \<open>What is observed when an \<open>int\<close> result is printed, and an observation after earlier output.\<close>

definition shown :: "int option \<Rightarrow> observation" where
  "shown r = (case r of None \<Rightarrow> Undefined | Some v \<Rightarrow> Exited (show_int v @ [newline]) 0)"

definition prefixed :: "string \<Rightarrow> observation \<Rightarrow> observation" where
  "prefixed p ob = (case ob of Undefined \<Rightarrow> Undefined | Exited out c \<Rightarrow> Exited (p @ out) c)"

text \<open>
  The observation written as a function of the input text alone. Lemma \<open>observe_main\<close>
  below shows that this is what \<open>main\<close> computes; the proofs work on this form.
\<close>

definition outcome_of_input :: "'d libm \<Rightarrow> string \<Rightarrow> observation" where
  "outcome_of_input L s =
     (if normalise (stdin_line 0 s) = ''sqrt'' then
        (case stod L (stdin_line 1 s) of
           None \<Rightarrow> Exited (''Error: Invalid input'' @ [newline]) 0
         | Some num \<Rightarrow> if lt_zero L num then Exited (''Error: Invalid input'' @ [newline]) 0
                       else shown (sqrt_int L num))
      else
        (case stoi (stdin_line 1 s) of
           Inl _ \<Rightarrow> Exited (''Error: Invalid input'' @ [newline]) 0
         | Inr a \<Rightarrow>
            (case stoi (stdin_line 2 s) of
               Inl _ \<Rightarrow> Exited (''Error: Invalid input'' @ [newline]) 0
             | Inr b \<Rightarrow>
                 if normalise (stdin_line 0 s) = ''add'' then shown (int_result (a + b))
                 else if normalise (stdin_line 0 s) = ''subtract'' then shown (int_result (a - b))
                 else if normalise (stdin_line 0 s) = ''multiply'' then shown (int_result (a * b))
                 else if normalise (stdin_line 0 s) = ''divide'' then
                   (if b = 0 then Exited (''Error: Division by zero'' @ [newline]) 0
                    else shown (int_divide a b))
                 else if normalise (stdin_line 0 s) = ''power'' then shown (pow_int L a b)
                 else if normalise (stdin_line 0 s) = ''modulo'' then shown (int_modulo a b)
                 else Exited (''Error: Unknown operation'' @ [newline]) 0)))"

subsection \<open>Vocabulary for the properties\<close>

text \<open>
  The padding that may surround the operation name: space, tab, carriage return (a newline
  cannot occur inside a line).
\<close>

definition blank :: "char \<Rightarrow> bool" where
  "blank c \<longleftrightarrow> c = CHR '' '' \<or> c = CHR 0x09 \<or> c = CHR 0x0D"

text \<open>Two characters that are equal or are the upper-case and lower-case form of one letter.\<close>

definition same_letter :: "char \<Rightarrow> char \<Rightarrow> bool" where
  "same_letter c d \<longleftrightarrow>
     c = d \<or> (c, d) \<in> set (zip ''ABCDEFGHIJKLMNOPQRSTUVWXYZ'' ''abcdefghijklmnopqrstuvwxyz'')
           \<or> (d, c) \<in> set (zip ''ABCDEFGHIJKLMNOPQRSTUVWXYZ'' ''abcdefghijklmnopqrstuvwxyz'')"

text \<open>
  One instance of the floating-point library, for evaluating the program on concrete inputs:
  the doubles are cut down to the integers that fit \<open>int\<close>, with exact arithmetic. The
  properties below hold for every instance; this one only supplies closed examples.
\<close>

fun isqrt :: "nat \<Rightarrow> nat" where
  "isqrt 0 = 0"
| "isqrt (Suc n) = (let r = isqrt n in if Suc r * Suc r \<le> Suc n then Suc r else r)"

definition sample_libm :: "int libm" where
  "sample_libm =
     \<lparr>stod = (\<lambda>s. case stoi s of Inl _ \<Rightarrow> None | Inr v \<Rightarrow> Some v),
      lt_zero = (\<lambda>x. x < 0),
      sqrt_int = (\<lambda>x. int_result (int (isqrt (nat x)))),
      pow_int = (\<lambda>a b. if 0 \<le> b then int_result (a ^ nat b)
                         else if a = 0 then None
                         else if a = 1 then Some 1
                         else if a = - 1 then Some (if even b then 1 else - 1)
                         else Some 0)\<rparr>"

section \<open>The sandbox image (Dockerfile.cpp)\<close>

subsection \<open>The recipe\<close>





subsection \<open>What a build produces\<close>














section \<open>The sandboxed execution service\<close>

text \<open>
  The repository's orchestration code is not among the sources at hand. The definitions of
  this section are modelled from the specification (sections 3, 4.2, 4.3 and 4.4), and each
  says so.
\<close>

subsection \<open>Data model\<close>

text \<open>Modelled from the spec: the records of its data model (section 3), whose code is missing.\<close>

record mount =
  hostPath :: string
  containerPath :: string
  readOnly :: bool

record execution_policy =
  allowedBinaries :: "string set"
  cpuTimeLimitMs :: nat
  wallClockLimitMs :: nat
  memoryLimitBytes :: nat
  networkEnabled :: bool
  filesystemMounts :: "mount list"

record sandbox_image =
  image_languageId :: string
  imageReference :: string
  entrypointTemplate :: string

record run_request =
  languageId :: string
  sourceCode :: string
  stdin :: string
  requestId :: string

record sandbox_instance =
  instanceId :: nat
  workspacePath :: string
  processHandle :: nat
  createdAt :: nat

datatype status = Success | RuntimeError | Timeout | PolicyViolation | InternalError

record run_result =
  result_requestId :: string
  status :: status
  stdout :: string
  stderr :: string
  exitCode :: "int option"
  durationMs :: nat

datatype sandbox_error = UnsupportedLanguage | ProvisionError

text \<open>
  Modelled from the spec: the host that the provisioner acts on (section 6, outbound
  interface), whose code is missing. It holds the filesystem roots that exist, the live
  processes (each under an instance), the execution identities in use, whether isolation
  can be set up at all, and what provisioning and teardown cost in milliseconds.
\<close>

record host =
  isolation_available :: bool
  next_instance :: nat
  roots :: "string set"
  processes :: "(nat \<times> nat) set"
  identities :: "nat set"
  provision_ms :: nat
  teardown_ms :: nat

text \<open>
  Modelled from the spec: what an untrusted program does once launched, as the orchestrator
  sees it. It exits by itself after \<open>exits_after\<close> milliseconds with \<open>exit_status\<close>, or
  never (\<open>None\<close>); \<open>written_out t\<close> and \<open>written_err t\<close> are what it has written to its
  two streams \<open>t\<close> milliseconds after the launch.
\<close>

record behaviour =
  exits_after :: "nat option"
  exit_status :: int
  written_out :: "nat \<Rightarrow> string"
  written_err :: "nat \<Rightarrow> string"

subsection \<open>Registry and provisioner\<close>

text \<open>
  Modelled from the spec: \<open>resolve(languageId) -> SandboxImage\<close>, which fails with
  \<open>UnsupportedLanguage\<close> if no entry exists (section 4.2); its code is missing.
\<close>

definition resolve :: "(string \<rightharpoonup> sandbox_image) \<Rightarrow> string \<Rightarrow> sandbox_error + sandbox_image" where
  "resolve registry lang =
     (case registry lang of None \<Rightarrow> Inl UnsupportedLanguage | Some img \<Rightarrow> Inr img)"

text \<open>
  Modelled from the spec: the fresh, unique, non-reused directory of an instance; the spec
  fixes no naming scheme, this is one.
\<close>

definition workspace_of :: "nat \<Rightarrow> string" where
  "workspace_of n = ''/sandbox/'' @ replicate n (CHR ''i'')"

text \<open>
  Modelled from the spec: \<open>provision(image, policy, requestId) -> SandboxInstance\<close>
  (section 4.3), whose code is missing. It creates a fresh filesystem root and an execution
  identity, and fails with \<open>ProvisionError\<close> when the isolation primitives are unavailable.
\<close>

definition provision ::
  "sandbox_image \<Rightarrow> execution_policy \<Rightarrow> string \<Rightarrow> nat \<Rightarrow> host
     \<Rightarrow> sandbox_error + (sandbox_instance \<times> host)" where
  "provision img policy rid now h =
     (if \<not> isolation_available h then Inl ProvisionError
      else let n = next_instance h;
               inst = \<lparr>instanceId = n, workspacePath = workspace_of n, processHandle = n,
                       createdAt = now\<rparr>
           in Inr (inst, h\<lparr>next_instance := Suc n,
                          roots := insert (workspace_of n) (roots h),
                          identities := insert n (identities h)\<rparr>))"

text \<open>
  Modelled from the spec: \<open>release(instance)\<close>, "removes the filesystem root, terminates any
  lingering process under that instance, releases the identity" (section 4.3); its code is
  missing. The result type has room for an error; the teardown described raises none.
\<close>

definition release :: "sandbox_instance \<Rightarrow> host \<Rightarrow> sandbox_error + host" where
  "release inst h =
     Inr (h\<lparr>roots := roots h - {workspacePath inst},
            processes := {p \<in> processes h. fst p \<noteq> instanceId inst},
            identities := identities h - {instanceId inst}\<rparr>)"

subsection \<open>Run orchestrator\<close>

text \<open>
  Modelled from the spec: the host operations of step 3 and step 4 of \<open>execute\<close>
  (section 4.4), whose code is missing: launching the entrypoint under the instance,
  forcibly terminating the process tree under the instance, and reaping a process that has
  exited.
\<close>

definition launch :: "sandbox_instance \<Rightarrow> host \<Rightarrow> host" where
  "launch inst h = h\<lparr>processes := insert (instanceId inst, processHandle inst) (processes h)\<rparr>"

definition terminate_tree :: "sandbox_instance \<Rightarrow> host \<Rightarrow> host" where
  "terminate_tree inst h = h\<lparr>processes := {p \<in> processes h. fst p \<noteq> instanceId inst}\<rparr>"

definition reap :: "sandbox_instance \<Rightarrow> host \<Rightarrow> host" where
  "reap inst h = h\<lparr>processes := processes h - {(instanceId inst, processHandle inst)}\<rparr>"

text \<open>
  Modelled from the spec: step 4, "wait for process exit or \<open>wallClockLimitMs\<close> elapsing,
  whichever first"; its code is missing. The wait looks once per millisecond, from \<open>t\<close>
  milliseconds after the launch; a process that has exited is seen before the limit is
  tested.
\<close>

datatype wait_outcome = Process_exited nat | Limit_elapsed

function wait_for_exit :: "behaviour \<Rightarrow> nat \<Rightarrow> nat \<Rightarrow> wait_outcome" where
  "wait_for_exit prog limit t =
     (if (case exits_after prog of None \<Rightarrow> False | Some e \<Rightarrow> e \<le> t) then Process_exited t
      else if limit \<le> t then Limit_elapsed
      else wait_for_exit prog limit (Suc t))"
  by pat_completeness auto
termination
  by (relation "measure (\<lambda>(prog, limit, t). limit - t)") auto

declare wait_for_exit.simps [simp del]

text \<open>
  Modelled from the spec: step 6, "unconditionally invoke \<open>release\<close> on the instance": the
  host after the call, whatever the call returns.
\<close>

definition after_release :: "sandbox_instance \<Rightarrow> host \<Rightarrow> host" where
  "after_release inst h = (case release inst h of Inl _ \<Rightarrow> h | Inr h' \<Rightarrow> h')"

text \<open>
  Modelled from the spec: \<open>execute(request) -> RunResult\<close>, steps 1 to 6 of section 4.4,
  whose code is missing. \<open>runs\<close> gives the behaviour of a source text on a standard input
  under an image, \<open>cap\<close> is the bound on captured output per stream, \<open>now\<close> is the time of the
  call. The duration reported is the time for provisioning, waiting and teardown.
\<close>

definition execute ::
  "(string \<rightharpoonup> sandbox_image) \<Rightarrow> execution_policy \<Rightarrow> nat
     \<Rightarrow> (sandbox_image \<Rightarrow> string \<Rightarrow> string \<Rightarrow> behaviour) \<Rightarrow> nat \<Rightarrow> host \<Rightarrow> run_request
     \<Rightarrow> run_result \<times> host" where
  "execute registry policy cap runs now h req =
     (case resolve registry (languageId req) of
        Inl _ \<Rightarrow>
          (\<lparr>result_requestId = requestId req, status = InternalError, stdout = [],
            stderr = ''unsupported language'', exitCode = None, durationMs = 0\<rparr>, h)
      | Inr img \<Rightarrow>
         (case provision img policy (requestId req) now h of
            Inl _ \<Rightarrow>
              (\<lparr>result_requestId = requestId req, status = InternalError, stdout = [],
                stderr = [], exitCode = None, durationMs = provision_ms h\<rparr>, h)
          | Inr (inst, h1) \<Rightarrow>
              let prog = runs img (sourceCode req) (stdin req);
                  h2 = launch inst h1;
                  limit = wallClockLimitMs policy
              in (case wait_for_exit prog limit 0 of
                    Limit_elapsed \<Rightarrow>
                      (\<lparr>result_requestId = requestId req, status = Timeout,
                        stdout = take cap (written_out prog limit),
                        stderr = take cap (written_err prog limit),
                        exitCode = None,
                        durationMs = provision_ms h + limit + teardown_ms h\<rparr>,
                       after_release inst (terminate_tree inst h2))
                  | Process_exited t \<Rightarrow>
                      (\<lparr>result_requestId = requestId req,
                        status = (if exit_status prog = 0 then Success else RuntimeError),
                        stdout = take cap (written_out prog t),
                        stderr = take cap (written_err prog t),
                        exitCode = Some (exit_status prog),
                        durationMs = provision_ms h + t + teardown_ms h\<rparr>,
                       after_release inst (reap inst h2)))))"

text \<open>
  Modelled from the spec: "a program that sleeps longer than \<open>wallClockLimitMs\<close>": one that
  never exits, or exits only after the limit.
\<close>

definition runs_longer :: "execution_policy \<Rightarrow> behaviour \<Rightarrow> bool" where
  "runs_longer policy prog =
     (case exits_after prog of None \<Rightarrow> True | Some e \<Rightarrow> wallClockLimitMs policy < e)"

text \<open>A registry, a policy, a host and a program that loops forever, for a closed example.\<close>

definition sample_registry :: "string \<rightharpoonup> sandbox_image" where
  "sample_registry =
     [''cpp'' \<mapsto> \<lparr>image_languageId = ''cpp'', imageReference = ''sandbox-cpp'',
                   entrypointTemplate = ''g++ {source} -o main && ./main''\<rparr>]"

definition sample_policy :: execution_policy where
  "sample_policy =
     \<lparr>allowedBinaries = {''g++''}, cpuTimeLimitMs = 20, wallClockLimitMs = 30,
      memoryLimitBytes = 1000, networkEnabled = False,
      filesystemMounts = [\<lparr>hostPath = ''/sandbox'', containerPath = ''/app'', readOnly = False\<rparr>]\<rparr>"

definition sample_host :: host where
  "sample_host =
     \<lparr>isolation_available = True, next_instance = 2, roots = {}, processes = {},
      identities = {}, provision_ms = 5, teardown_ms = 3\<rparr>"

definition endless :: "sandbox_image \<Rightarrow> string \<Rightarrow> string \<Rightarrow> behaviour" where
  "endless img src inp =
     \<lparr>exits_after = None, exit_status = 0, written_out = (\<lambda>t. []), written_err = (\<lambda>t. [])\<rparr>"

definition sample_request :: run_request where
  "sample_request =
     \<lparr>languageId = ''cpp'', sourceCode = ''int main() { for (;;) {} }'', stdin = [],
      requestId = ''r1''\<rparr>"

section \<open>Properties of the calculator\<close>

subsection \<open>\<open>main\<close> as a function of the input\<close>

lemma getline_eq: "getline w = (stdin_line 0 (cin w), w\<lparr>cin := skip_lines 1 (cin w)\<rparr>)"
  by (simp add: getline_def stdin_line_def)

lemma skip_lines_add: "skip_lines m (skip_lines n s) = skip_lines (m + n) s"
  by (induction n arbitrary: s) simp_all

lemma stdin_line_skip: "stdin_line m (skip_lines n s) = stdin_line (m + n) s"
  by (simp add: stdin_line_def skip_lines_add)

lemma stdin_line_after_one:
  "stdin_line 0 (skip_lines 1 s) = stdin_line 1 s"
  "stdin_line 1 (skip_lines 1 s) = stdin_line 2 s"
  using stdin_line_skip [of 0 1 s] stdin_line_skip [of 1 1 s] by (simp_all add: numeral_2_eq_2)

lemma observe_print_int: "observe (print_int r w) = prefixed (cout w) (shown r)"
  by (simp add: print_int_def observe_def put_endl_def prefixed_def shown_def split: option.splits)

lemma observe_put_endl:
  "observe (Returned (put_endl m w) c) = prefixed (cout w) (Exited (m @ [newline]) c)"
  by (simp add: observe_def put_endl_def prefixed_def)

lemma world_cin_update: "cin (w\<lparr>cin := x\<rparr>) = x" "cout (w\<lparr>cin := x\<rparr>) = cout w"
  by simp_all

lemma observe_main: "observe (main L w) = prefixed (cout w) (outcome_of_input L (cin w))"
  unfolding main_def outcome_of_input_def getline_eq Let_def prod.case
  by (simp only: if_distrib [of observe] if_distrib [of "prefixed (cout w)"]
      option.case_distrib [of observe] option.case_distrib [of "prefixed (cout w)"]
      sum.case_distrib [of observe] sum.case_distrib [of "prefixed (cout w)"]
      observe_print_int observe_put_endl world_cin_update stdin_line_after_one)

lemma prefixed_Nil: "prefixed [] ob = ob"
  by (cases ob) (simp_all add: prefixed_def)

lemma calculator_eq: "calculator L s = outcome_of_input L s"
  by (simp add: calculator_def observe_main prefixed_Nil)

subsection \<open>Two runs from the specification\<close>

text \<open>
  C1. On the three input lines \<open>add\<close>, \<open>3\<close>, \<open>4\<close> the program writes exactly \<open>7\<close> and a
  newline to standard output and returns exit code 0.
\<close>

theorem add_3_4_prints_7:
  "calculator L (''add'' @ [newline] @ ''3'' @ [newline] @ ''4'' @ [newline])
     = Exited (''7'' @ [newline]) 0"
  by code_simp

text \<open>
  C2. On the three input lines \<open>divide\<close>, \<open>5\<close>, \<open>0\<close> the program writes exactly
  \<open>Error: Division by zero\<close> and a newline to standard output and returns exit code 0.
\<close>

theorem divide_5_0_reports_error:
  "calculator L (''divide'' @ [newline] @ ''5'' @ [newline] @ ''0'' @ [newline])
     = Exited (''Error: Division by zero'' @ [newline]) 0"
  by code_simp

subsection \<open>Division and remainder by zero\<close>

text \<open>
  With a second operand that parses to \<open>0\<close>, \<open>divide\<close> reports the error and \<open>modulo\<close>
  evaluates the remainder.
\<close>

lemma divide_by_zero_reported:
  assumes "normalise (stdin_line 0 s) = ''divide''"
    and "stoi (stdin_line 1 s) = Inr a" and "stoi (stdin_line 2 s) = Inr 0"
  shows "calculator L s = Exited (''Error: Division by zero'' @ [newline]) 0"
  using assms unfolding calculator_eq outcome_of_input_def by simp

lemma modulo_by_zero_undefined:
  assumes "normalise (stdin_line 0 s) = ''modulo''"
    and "stoi (stdin_line 1 s) = Inr a" and "stoi (stdin_line 2 s) = Inr 0"
  shows "calculator L s = Undefined"
  using assms unfolding calculator_eq outcome_of_input_def
  by (simp add: int_modulo_def shown_def)

text \<open>
  C3. The claim: whenever the operation is \<open>divide\<close> or \<open>modulo\<close> and the second operand
  parses to \<open>0\<close>, the program prints an error message and never evaluates the division or
  the remainder. The \<open>divide\<close> branch tests \<open>b == 0\<close> (see C2); the \<open>modulo\<close> branch has no
  such test. On the input lines \<open>modulo\<close>, \<open>5\<close>, \<open>0\<close> the second operand parses to \<open>0\<close> and
  the program evaluates \<open>5 % 0\<close>, which has no defined behaviour.
\<close>

theorem modulo_5_0_undefined:
  "normalise (stdin_line 0 (''modulo'' @ [newline] @ ''5'' @ [newline] @ ''0'' @ [newline])) = ''modulo'' \<and>
   stoi (stdin_line 2 (''modulo'' @ [newline] @ ''5'' @ [newline] @ ''0'' @ [newline])) = Inr 0 \<and>
   calculator L (''modulo'' @ [newline] @ ''5'' @ [newline] @ ''0'' @ [newline]) = Undefined"
  by code_simp

subsection \<open>Operands that do not parse\<close>

text \<open>
  C4. For every input: if the operation is \<open>sqrt\<close> and the operand line is rejected by
  \<open>std::stod\<close> or parses to a value below zero, or the operation is any other and one of
  the two operand lines is rejected by \<open>std::stoi\<close> (not a number, or out of the range of
  \<open>int\<close>), then the program writes exactly \<open>Error: Invalid input\<close> and a newline to
  standard output and returns exit code 0: the exception never leaves \<open>main\<close>.
\<close>

theorem invalid_operand_reported:
  assumes "(normalise (stdin_line 0 s) = ''sqrt'' \<and>
              (stod L (stdin_line 1 s) = None \<or>
               (\<exists>x. stod L (stdin_line 1 s) = Some x \<and> lt_zero L x)))
         \<or> (normalise (stdin_line 0 s) \<noteq> ''sqrt'' \<and>
              (isl (stoi (stdin_line 1 s)) \<or> isl (stoi (stdin_line 2 s))))"
  shows "calculator L s = Exited (''Error: Invalid input'' @ [newline]) 0"
  using assms unfolding calculator_eq outcome_of_input_def
  by (auto simp: isl_def split: sum.splits option.splits)

text \<open>
  Two instances: \<open>sqrt\<close> of \<open>-4\<close>, which parses to a negative value, and \<open>add\<close> with the
  second operand \<open>four\<close>, which \<open>std::stoi\<close> rejects.
\<close>

theorem invalid_operand_reported_witness:
  "normalise (stdin_line 0 (''sqrt'' @ [newline] @ ''-4'' @ [newline])) = ''sqrt'' \<and>
   stod sample_libm (stdin_line 1 (''sqrt'' @ [newline] @ ''-4'' @ [newline])) = Some (- 4) \<and>
   lt_zero sample_libm (- 4) \<and>
   calculator sample_libm (''sqrt'' @ [newline] @ ''-4'' @ [newline])
     = Exited (''Error: Invalid input'' @ [newline]) 0 \<and>
   normalise (stdin_line 0 (''add'' @ [newline] @ ''3'' @ [newline] @ ''four'' @ [newline])) \<noteq> ''sqrt'' \<and>
   isl (stoi (stdin_line 2 (''add'' @ [newline] @ ''3'' @ [newline] @ ''four'' @ [newline]))) \<and>
   calculator sample_libm (''add'' @ [newline] @ ''3'' @ [newline] @ ''four'' @ [newline])
     = Exited (''Error: Invalid input'' @ [newline]) 0"
proof -
  let ?s = "''sqrt'' @ [newline] @ ''-4'' @ [newline]"
  let ?t = "''add'' @ [newline] @ ''3'' @ [newline] @ ''four'' @ [newline]"
  have s0: "normalise (stdin_line 0 ?s) = ''sqrt''" by code_simp
  have s1: "stod sample_libm (stdin_line 1 ?s) = Some (- 4)" by code_simp
  have s2: "lt_zero sample_libm (- 4)" by code_simp
  have t0: "normalise (stdin_line 0 ?t) \<noteq> ''sqrt''" by code_simp
  have t2: "isl (stoi (stdin_line 2 ?t))" by code_simp
  from s0 s1 s2 have "calculator sample_libm ?s = Exited (''Error: Invalid input'' @ [newline]) 0"
    by (intro invalid_operand_reported) blast
  moreover from t0 t2 have "calculator sample_libm ?t = Exited (''Error: Invalid input'' @ [newline]) 0"
    by (intro invalid_operand_reported) blast
  ultimately show ?thesis using s0 s1 s2 t0 t2 by blast
qed

subsection \<open>The operation name: case and padding\<close>

lemma tolower_pairs:
  "(c, d) \<in> set (zip ''ABCDEFGHIJKLMNOPQRSTUVWXYZ'' ''abcdefghijklmnopqrstuvwxyz'') \<Longrightarrow>
   tolower c = d \<and> tolower d = d"
  by (auto simp: tolower_def char_of_eq_iff)

lemma same_letter_tolower:
  assumes "same_letter c d"
  shows "tolower c = tolower d"
proof -
  consider "c = d"
    | "(c, d) \<in> set (zip ''ABCDEFGHIJKLMNOPQRSTUVWXYZ'' ''abcdefghijklmnopqrstuvwxyz'')"
    | "(d, c) \<in> set (zip ''ABCDEFGHIJKLMNOPQRSTUVWXYZ'' ''abcdefghijklmnopqrstuvwxyz'')"
    using assms unfolding same_letter_def by blast
  then show ?thesis
  proof cases
    case 1
    then show ?thesis by (simp only:)
  next
    case 2
    from tolower_pairs [OF 2] have "tolower c = d" "tolower d = d" by blast+
    then show ?thesis by (simp only:)
  next
    case 3
    from tolower_pairs [OF 3] have "tolower d = c" "tolower c = c" by blast+
    then show ?thesis by (simp only:)
  qed
qed

lemma blank_trim: "blank c \<Longrightarrow> c \<in> set trim_chars"
  by (auto simp: blank_def trim_chars_def)

lemma blank_tolower: "blank c \<Longrightarrow> tolower c = c"
  by (auto simp: blank_def tolower_def)

lemma map_tolower_blank: "list_all blank xs \<Longrightarrow> map tolower xs = xs"
  by (induction xs) (simp_all add: blank_tolower)

lemma erase_leading_blank: "list_all blank pre \<Longrightarrow> erase_leading (pre @ x) = erase_leading x"
  unfolding erase_leading_def
  by (rule dropWhile_append2) (simp add: list_all_iff blank_trim)

lemma erase_trailing_blank: "list_all blank post \<Longrightarrow> erase_trailing (x @ post) = erase_trailing x"
  unfolding erase_trailing_def rev_append
  by (rule arg_cong [where f = rev], rule dropWhile_append2) (simp add: list_all_iff blank_trim)

lemma erase_trailing_leading_append:
  assumes "list_all blank post"
  shows "erase_trailing (erase_leading (x @ post)) = erase_trailing (erase_leading x)"
proof (cases "\<forall>c\<in>set x. c \<in> set trim_chars")
  case True
  then have "erase_leading (x @ post) = erase_leading post" "erase_leading x = []"
    unfolding erase_leading_def by (simp_all add: dropWhile_append2)
  moreover have "erase_leading post = []"
    using assms unfolding erase_leading_def by (simp add: list_all_iff blank_trim)
  ultimately show ?thesis by simp
next
  case False
  then obtain c where "c \<in> set x" "c \<notin> set trim_chars" by blast
  then have "erase_leading (x @ post) = erase_leading x @ post"
    unfolding erase_leading_def by (simp add: dropWhile_append1)
  then show ?thesis using assms by (simp add: erase_trailing_blank)
qed

lemma normalise_padding:
  assumes "list_all blank pre" "list_all blank post"
  shows "normalise (pre @ m @ post) = normalise m"
  using assms
  by (simp add: normalise_def map_tolower_blank erase_leading_blank erase_trailing_leading_append)

lemma normalise_same_letters:
  assumes "list_all2 same_letter m m'"
  shows "normalise m = normalise m'"
proof -
  have "map tolower m = map tolower m'"
    using assms by (induction rule: list_all2_induct) (simp_all add: same_letter_tolower)
  then show ?thesis by (simp add: normalise_def)
qed

lemma takeWhile_line:
  assumes "newline \<notin> set l" "rest = [] \<or> hd rest = newline"
  shows "takeWhile (\<lambda>c. c \<noteq> newline) (l @ rest) = l"
    and "dropWhile (\<lambda>c. c \<noteq> newline) (l @ rest) = rest"
proof -
  have a: "\<And>x. x \<in> set l \<Longrightarrow> x \<noteq> newline" using assms(1) by auto
  have "takeWhile (\<lambda>c. c \<noteq> newline) rest = [] \<and> dropWhile (\<lambda>c. c \<noteq> newline) rest = rest"
    using assms(2) by (cases rest) auto
  then show "takeWhile (\<lambda>c. c \<noteq> newline) (l @ rest) = l"
    and "dropWhile (\<lambda>c. c \<noteq> newline) (l @ rest) = rest"
    using a by (simp_all add: takeWhile_append2 dropWhile_append2)
qed

lemma first_line_append:
  assumes "newline \<notin> set l" "rest = [] \<or> hd rest = newline"
  shows "stdin_line 0 (l @ rest) = l"
    and "stdin_line (Suc n) (l @ rest) = stdin_line n (drop 1 rest)"
  using takeWhile_line [OF assms] by (simp_all add: stdin_line_def)

lemma blank_not_newline: "list_all blank xs \<Longrightarrow> newline \<notin> set xs"
proof
  assume a: "list_all blank xs" and b: "newline \<in> set xs"
  then have "blank newline" by (simp add: list_all_iff)
  then show False by (simp add: blank_def)
qed

text \<open>
  C5. Take any input whose first line is \<open>pre @ m @ post\<close>, followed by \<open>rest\<close> (nothing, or
  a newline and the remaining lines). Replace the first line by \<open>pre' @ m' @ post'\<close>, where
  \<open>pre\<close>, \<open>post\<close>, \<open>pre'\<close>, \<open>post'\<close> consist of spaces, tabs and carriage returns and \<open>m'\<close>
  differs from \<open>m\<close> only in the case of letters. The program then shows the same standard
  output and exit code (or has undefined behaviour on both inputs).
\<close>

theorem operation_name_insensitive:
  assumes "list_all blank pre" "list_all blank post" "list_all blank pre'" "list_all blank post'"
    and "list_all2 same_letter m m'"
    and "newline \<notin> set m" "newline \<notin> set m'"
    and "rest = [] \<or> hd rest = newline"
  shows "calculator L ((pre @ m @ post) @ rest) = calculator L ((pre' @ m' @ post') @ rest)"
proof -
  have n1: "newline \<notin> set (pre @ m @ post)" and n2: "newline \<notin> set (pre' @ m' @ post')"
    using assms(1-4,6,7) by (simp_all add: blank_not_newline)
  have "normalise (pre @ m @ post) = normalise m" "normalise (pre' @ m' @ post') = normalise m'"
    using assms(1-4) by (simp_all only: normalise_padding)
  then have eq: "normalise (pre @ m @ post) = normalise (pre' @ m' @ post')"
    using normalise_same_letters [OF assms(5)] by (simp only:)
  have l0: "stdin_line 0 ((pre @ m @ post) @ rest) = pre @ m @ post"
    "stdin_line 0 ((pre' @ m' @ post') @ rest) = pre' @ m' @ post'"
    using first_line_append(1) [OF n1 assms(8)] first_line_append(1) [OF n2 assms(8)]
    by (simp_all only:)
  have l1: "stdin_line 1 ((pre @ m @ post) @ rest) = stdin_line 1 ((pre' @ m' @ post') @ rest)"
    using first_line_append(2) [OF n1 assms(8), of 0] first_line_append(2) [OF n2 assms(8), of 0]
    by (simp only: One_nat_def)
  have l2: "stdin_line 2 ((pre @ m @ post) @ rest) = stdin_line 2 ((pre' @ m' @ post') @ rest)"
    using first_line_append(2) [OF n1 assms(8), of 1] first_line_append(2) [OF n2 assms(8), of 1]
    by (simp only: One_nat_def numeral_2_eq_2)
  show ?thesis
    unfolding calculator_eq outcome_of_input_def l0 l1 l2 eq ..
qed

text \<open>The instance of the claim: two spaces, \<open>ADD\<close>, a space and a carriage return, against \<open>add\<close>.\<close>

theorem operation_name_insensitive_witness:
  "calculator sample_libm
     (([CHR '' '', CHR '' ''] @ ''ADD'' @ [CHR '' '', CHR 0x0D]) @ newline # ''3'' @ [newline] @ ''4'' @ [newline])
   = calculator sample_libm (([] @ ''add'' @ []) @ newline # ''3'' @ [newline] @ ''4'' @ [newline])"
proof -
  have b: "list_all blank [CHR '' '', CHR '' '']" "list_all blank [CHR '' '', CHR 0x0D]"
    "list_all blank []" "list_all blank []" by (simp_all add: blank_def)
  have l: "list_all2 same_letter ''ADD'' ''add''" by (simp add: same_letter_def)
  have n: "newline \<notin> set ''ADD''" "newline \<notin> set ''add''" by simp_all
  have r: "newline # ''3'' @ [newline] @ ''4'' @ [newline] = [] \<or>
      hd (newline # ''3'' @ [newline] @ ''4'' @ [newline]) = newline" by simp
  show ?thesis by (rule operation_name_insensitive [OF b l n r])
qed

subsection \<open>Printing and parsing an \<open>int\<close>\<close>

text \<open>What \<open>operator<<\<close> prints for an \<open>int\<close> is read back by \<open>std::stoi\<close> as the same value.\<close>

lemma digit_char_props:
  assumes "n < 10"
  shows "isdigit (digit_char n)" "digit_value (digit_char n) = int n" "\<not> isspace (digit_char n)"
    "digit_char n \<noteq> CHR ''-''" "digit_char n \<noteq> CHR ''+''"
proof -
  have v: "of_char (digit_char n) = 48 + n"
    using assms by (simp add: digit_char_def of_char_of)
  show "isdigit (digit_char n)" using assms by (simp add: isdigit_def v)
  show "digit_value (digit_char n) = int n" by (simp add: digit_value_def v)
  have ne: "digit_char n \<noteq> c" if "of_char c < (48::nat)" for c
    using that v by (metis not_add_less1)
  show "\<not> isspace (digit_char n)" "digit_char n \<noteq> CHR ''-''" "digit_char n \<noteq> CHR ''+''"
    using ne by (auto simp: isspace_def)
qed

lemma show_nat_digits: "show_nat n \<noteq> [] \<and> list_all isdigit (show_nat n) \<and> digits_value (show_nat n) = int n"
proof (induction n rule: show_nat.induct)
  case (1 n)
  show ?case
  proof (cases "n < 10")
    case True
    then show ?thesis
      by (subst (1 2 3) show_nat.simps) (simp add: digit_char_props digits_value_def)
  next
    case False
    have m: "n mod 10 < 10" by simp
    have "digits_value (show_nat (n div 10) @ [digit_char (n mod 10)]) = int (n div 10) * 10 + int (n mod 10)"
      using 1 False by (simp add: digits_value_def digit_char_props(2) [OF m])
    also have "\<dots> = int n" by (simp add: zmod_int zdiv_int)
    finally show ?thesis using 1 False
      by (subst (1 2 3) show_nat.simps) (simp add: digit_char_props(1) [OF m])
  qed
qed

lemma hd_show_nat: "isdigit (hd (show_nat n))"
  using show_nat_digits [of n] by (cases "show_nat n") simp_all

lemma isdigit_not_space: "isdigit c \<Longrightarrow> \<not> isspace c \<and> c \<noteq> CHR ''-'' \<and> c \<noteq> CHR ''+''"
  by (auto simp: isdigit_def isspace_def)

lemma stoi_show_nat:
  assumes "int n \<le> INT_MAX"
  shows "stoi (show_nat n) = Inr (int n)"
proof -
  obtain c cs where s: "show_nat n = c # cs" using show_nat_digits [of n] by (cases "show_nat n") auto
  have c: "isdigit c" using hd_show_nat [of n] s by simp
  have d: "dropWhile isspace (show_nat n) = show_nat n" using c s isdigit_not_space by simp
  have t: "takeWhile isdigit (show_nat n) = show_nat n"
    using show_nat_digits [of n] by (simp add: list_all_iff)
  have "INT_MIN \<le> int n" by (simp add: INT_MIN_def)
  then show ?thesis
    using assms show_nat_digits [of n] isdigit_not_space [OF c]
    unfolding stoi_def d Let_def by (simp add: s [symmetric] t) (simp add: s)
qed

lemma stoi_minus_show_nat:
  assumes "INT_MIN \<le> - int n"
  shows "stoi (CHR ''-'' # show_nat n) = Inr (- int n)"
proof -
  have t: "takeWhile isdigit (show_nat n) = show_nat n"
    using show_nat_digits [of n] by (simp add: list_all_iff)
  have sp: "\<not> isspace CHR ''-''" by (simp add: isspace_def)
  have "- int n \<le> INT_MAX" by (simp add: INT_MAX_def)
  then show ?thesis
    using assms show_nat_digits [of n] sp
    unfolding stoi_def Let_def by (simp add: t)
qed

lemma stoi_show_int:
  assumes "INT_MIN \<le> v" "v \<le> INT_MAX"
  shows "stoi (show_int v) = Inr v"
  using assms stoi_show_nat [of "nat v"] stoi_minus_show_nat [of "nat (- v)"]
  by (auto simp: show_int_def)

subsection \<open>Division\<close>

lemma stoi_range: "stoi s = Inr v \<Longrightarrow> INT_MIN \<le> v \<and> v \<le> INT_MAX"
  by (auto simp: stoi_def Let_def split: if_splits)

text \<open>The quotient truncated toward zero is the only one whose remainder has the sign of the dividend.\<close>

lemma truncated_unique:
  fixes a b q r :: int
  assumes "a = q * b + r" "\<bar>r\<bar> < \<bar>b\<bar>" "r = 0 \<or> sgn r = sgn a"
  shows "q = a sdiv b"
proof -
  let ?q = "a sdiv b" and ?r = "a smod b"
  define m where "m = \<bar>a\<bar> mod \<bar>b\<bar>"
  have e: "a = ?q * b + ?r" by (simp add: sdiv_mult_smod_eq)
  have b0: "b \<noteq> 0" using assms(2) by auto
  have m: "0 \<le> m" "m < \<bar>b\<bar>" using b0 by (simp_all add: m_def)
  have r: "?r = sgn a * m" by (simp add: signed_modulo_int_def m_def)
  have "(q - ?q) * b = ?r - r" using assms(1) e by (simp add: algebra_simps)
  moreover have "\<bar>?r - r\<bar> < \<bar>b\<bar>" using m assms(2,3) unfolding r
    by (cases "a > 0"; cases "a = 0") (auto simp: sgn_if split: if_splits)
  ultimately have "\<bar>(q - ?q) * b\<bar> < \<bar>b\<bar>" by simp
  then have "\<bar>q - ?q\<bar> * \<bar>b\<bar> < 1 * \<bar>b\<bar>" by (simp add: abs_mult)
  then have "\<bar>q - ?q\<bar> < 1" using b0 by (simp add: mult_less_cancel_right)
  then show ?thesis by simp
qed

lemma sdiv_in_range:
  fixes a b :: int
  assumes "INT_MIN \<le> a" "a \<le> INT_MAX" "b \<noteq> 0" "\<not> (a = INT_MIN \<and> b = - 1)"
  shows "int_result (a sdiv b) = Some (a sdiv b)"
proof -
  consider "b = 1" | "b = - 1" | "2 \<le> \<bar>b\<bar>" using assms(3) by linarith
  then show ?thesis
  proof cases
    case 1
    then show ?thesis using assms(1,2) by (simp add: int_result_def)
  next
    case 2
    then show ?thesis using assms(1,2,4) by (simp add: int_result_def INT_MIN_def INT_MAX_def)
  next
    case 3
    define d where "d = \<bar>a\<bar> div \<bar>b\<bar>"
    have d0: "0 \<le> d" unfolding d_def by (simp add: pos_imp_zdiv_nonneg_iff assms(3))
    have "d \<le> \<bar>a\<bar> div 2" unfolding d_def using 3 by (intro zdiv_mono2) simp_all
    moreover have "\<bar>a\<bar> \<le> 2147483648" using assms(1,2) by (simp add: INT_MIN_def INT_MAX_def)
    ultimately have d1: "d \<le> 1073741824" by linarith
    have "a sdiv b = sgn a * sgn b * d" by (simp add: signed_divide_int_def d_def)
    then have "\<bar>a sdiv b\<bar> \<le> d" using d0 by (simp add: abs_mult abs_sgn_eq)
    then have "- 2147483648 \<le> a sdiv b \<and> a sdiv b \<le> 2147483647" using d1 by linarith
    then show ?thesis by (simp add: int_result_def INT_MIN_def INT_MAX_def)
  qed
qed

text \<open>
  C6, as amended. For the operation \<open>divide\<close> with operand lines that parse to \<open>a\<close> and \<open>b\<close>,
  where \<open>b \<noteq> 0\<close> and the pair is not \<open>INT_MIN\<close> with \<open>-1\<close>: the program prints the quotient
  \<open>q\<close> of \<open>a\<close> by \<open>b\<close> truncated toward zero, that is, the \<open>q\<close> with \<open>a = q * b + r\<close> whose
  remainder \<open>r\<close> is smaller than \<open>b\<close> in absolute value and is zero or has the sign of \<open>a\<close>;
  the exit code is 0. Dividing \<open>-7\<close> by \<open>2\<close> prints \<open>-3\<close>.
\<close>

theorem divide_prints_truncated_quotient:
  assumes "normalise (stdin_line 0 s) = ''divide''"
    and "stoi (stdin_line 1 s) = Inr a" and "stoi (stdin_line 2 s) = Inr b"
    and "b \<noteq> 0" and "\<not> (a = INT_MIN \<and> b = - 1)"
    and "a = q * b + r" and "\<bar>r\<bar> < \<bar>b\<bar>" and "r = 0 \<or> sgn r = sgn a"
  shows "calculator L s = Exited (show_int q @ [newline]) 0"
proof -
  have q: "q = a sdiv b" using assms(6,7,8) by (rule truncated_unique)
  have "int_divide a b = Some q"
    using stoi_range [OF assms(2)] assms(4,5) by (simp add: int_divide_def q sdiv_in_range)
  moreover have "normalise (stdin_line 0 s) \<noteq> ''sqrt''" "normalise (stdin_line 0 s) \<noteq> ''add''"
    "normalise (stdin_line 0 s) \<noteq> ''subtract''" "normalise (stdin_line 0 s) \<noteq> ''multiply''"
    using assms(1) by simp_all
  ultimately show ?thesis
    unfolding calculator_eq outcome_of_input_def using assms(1,2,3,4)
    by (simp add: shown_def)
qed

text \<open>The instance of the claim: \<open>-7\<close> divided by \<open>2\<close> prints \<open>-3\<close>.\<close>

theorem divide_prints_truncated_quotient_witness:
  "calculator sample_libm (''divide'' @ [newline] @ ''-7'' @ [newline] @ ''2'' @ [newline])
     = Exited (''-3'' @ [newline]) 0"
proof -
  let ?s = "''divide'' @ [newline] @ ''-7'' @ [newline] @ ''2'' @ [newline]"
  have h: "normalise (stdin_line 0 ?s) = ''divide''" "stoi (stdin_line 1 ?s) = Inr (- 7)"
    "stoi (stdin_line 2 ?s) = Inr 2" by code_simp+
  have a: "(2::int) \<noteq> 0" "\<not> (- 7 = INT_MIN \<and> (2::int) = - 1)" "(- 7 :: int) = (- 3) * 2 + (- 1)"
    "\<bar>- 1 :: int\<bar> < \<bar>2\<bar>" "(- 1 :: int) = 0 \<or> sgn (- 1 :: int) = sgn (- 7)" by simp_all
  have "show_int (- 3) = ''-3''" by code_simp
  then show ?thesis
    using divide_prints_truncated_quotient [of ?s "- 7" 2 "- 3" "- 1" sample_libm, OF h a] by simp
qed

text \<open>
  C6 as stated fails for one pair: the operand lines \<open>-2147483648\<close> and \<open>-1\<close> parse to
  ints, the divisor is not zero and the exact quotient is \<open>2147483648\<close>, which is not an
  \<open>int\<close>. The program evaluates \<open>a / b\<close> all the same, which has no defined behaviour; it
  does not print the quotient.
\<close>

theorem divide_int_min_counterexample:
  "stoi (stdin_line 1 (''divide'' @ [newline] @ ''-2147483648'' @ [newline] @ ''-1'' @ [newline])) = Inr (- 2147483648) \<and>
   stoi (stdin_line 2 (''divide'' @ [newline] @ ''-2147483648'' @ [newline] @ ''-1'' @ [newline])) = Inr (- 1) \<and>
   (- 1 :: int) \<noteq> 0 \<and> (- 2147483648 :: int) = 2147483648 * (- 1) + 0 \<and>
   calculator sample_libm (''divide'' @ [newline] @ ''-2147483648'' @ [newline] @ ''-1'' @ [newline])
     = Undefined \<and>
   calculator sample_libm (''divide'' @ [newline] @ ''-2147483648'' @ [newline] @ ''-1'' @ [newline])
     \<noteq> Exited (''2147483648'' @ [newline]) 0"
proof -
  have "calculator sample_libm (''divide'' @ [newline] @ ''-2147483648'' @ [newline] @ ''-1'' @ [newline])
     = Undefined" by code_simp
  moreover have "stoi (stdin_line 1 (''divide'' @ [newline] @ ''-2147483648'' @ [newline] @ ''-1'' @ [newline])) = Inr (- 2147483648)"
    "stoi (stdin_line 2 (''divide'' @ [newline] @ ''-2147483648'' @ [newline] @ ''-1'' @ [newline])) = Inr (- 1)"
    by code_simp+
  ultimately show ?thesis by simp
qed

section \<open>Properties of the sandbox image\<close>











section \<open>Properties of the sandboxed execution service\<close>

text \<open>
  C9. For every instance and every host state, \<open>release\<close> returns without error, and a
  second \<open>release\<close> of the same instance on the state it left returns without error and
  leaves that state as it is.
\<close>

theorem release_idempotent:
  "\<exists>h'. release inst h = Inr h' \<and> release inst h' = Inr h'"
  by (auto simp: release_def)

lemma wait_runs_longer:
  assumes "runs_longer policy prog" and "t \<le> wallClockLimitMs policy"
  shows "wait_for_exit prog (wallClockLimitMs policy) t = Limit_elapsed"
  using assms(2)
proof (induction "wallClockLimitMs policy - t" arbitrary: t)
  case 0
  then show ?case using assms(1)
    by (subst wait_for_exit.simps) (auto simp: runs_longer_def split: option.splits)
next
  case (Suc k)
  then have "wait_for_exit prog (wallClockLimitMs policy) (Suc t) = Limit_elapsed" by simp
  then show ?case using assms(1) Suc.prems Suc.hyps(2)
    by (subst wait_for_exit.simps) (auto simp: runs_longer_def split: option.splits)
qed

text \<open>
  C10. Take a request whose language resolves, on a host where isolation is available, and
  whose program runs longer than \<open>wallClockLimitMs\<close> (it never exits, or exits after the
  limit). Then \<open>execute\<close> returns (it is a total function, and the wait ends at the limit)
  with status \<open>Timeout\<close>; the duration it reports is at most the limit plus the cost of
  provisioning and teardown; and in the host state it leaves there is no process under the
  instance, the instance's filesystem root is gone and its identity is released.
\<close>

theorem timeout_terminates_and_releases:
  assumes "registry (languageId req) = Some img" and "isolation_available h"
    and "runs_longer policy (runs img (sourceCode req) (stdin req))"
    and "execute registry policy cap runs now h req = (res, h')"
  shows "status res = Timeout
       \<and> durationMs res \<le> wallClockLimitMs policy + (provision_ms h + teardown_ms h)
       \<and> workspace_of (next_instance h) \<notin> roots h'
       \<and> next_instance h \<notin> fst ` processes h'
       \<and> next_instance h \<notin> identities h'"
proof -
  have w: "wait_for_exit (runs img (sourceCode req) (stdin req)) (wallClockLimitMs policy) 0 = Limit_elapsed"
    using assms(3) by (rule wait_runs_longer) simp
  show ?thesis
    using assms(1,2,4) w
    by (auto simp: execute_def resolve_def provision_def Let_def after_release_def release_def
        terminate_tree_def launch_def)
qed

text \<open>The scenario of the specification: a C++ program that loops forever, limit 30 ms.\<close>

theorem timeout_terminates_and_releases_witness:
  "status (fst (execute sample_registry sample_policy 100 endless 0 sample_host sample_request)) = Timeout
   \<and> durationMs (fst (execute sample_registry sample_policy 100 endless 0 sample_host sample_request)) \<le> 30 + (5 + 3)
   \<and> workspace_of 2 \<notin> roots (snd (execute sample_registry sample_policy 100 endless 0 sample_host sample_request))
   \<and> 2 \<notin> fst ` processes (snd (execute sample_registry sample_policy 100 endless 0 sample_host sample_request))
   \<and> 2 \<notin> identities (snd (execute sample_registry sample_policy 100 endless 0 sample_host sample_request))"
proof -
  have a: "sample_registry (languageId sample_request) =
      Some \<lparr>image_languageId = ''cpp'', imageReference = ''sandbox-cpp'',
            entrypointTemplate = ''g++ {source} -o main && ./main''\<rparr>"
    by (simp add: sample_registry_def sample_request_def)
  have b: "isolation_available sample_host" by (simp add: sample_host_def)
  have c: "runs_longer sample_policy (endless img (sourceCode sample_request) (stdin sample_request))" for img
    by (simp add: runs_longer_def endless_def)
  have d: "wallClockLimitMs sample_policy = 30" "provision_ms sample_host = 5"
    "teardown_ms sample_host = 3" "next_instance sample_host = 2"
    by (simp_all add: sample_policy_def sample_host_def)
  show ?thesis
    using timeout_terminates_and_releases [where registry = sample_registry and req = sample_request
        and policy = sample_policy and h = sample_host
        and runs = endless and cap = 100 and now = 0, OF a b c surjective_pairing]
    unfolding d .
qed

end
